theory Spec2Isabelle
  imports Complex_Main
begin

section \<open>Terrain grid\<close>

text \<open>
  The two map scripts (\<^verbatim>\<open>smiley-face.js\<close> and \<^verbatim>\<open>earthlike.js\<close>) write a grid that the
  game engine owns. A plot holds one terrain kind and a set of plot tags. The scripts name
  the kinds \<^verbatim>\<open>g_OceanTerrain\<close>, \<^verbatim>\<open>g_CoastTerrain\<close>, \<^verbatim>\<open>g_FlatTerrain\<close> and
  \<^verbatim>\<open>g_NavigableRiverTerrain\<close>; hills and mountains are added by later engine stages.
\<close>

datatype terrain = Ocean | Coast | Flat | Hill | Mountain | NavigableRiver

datatype side = WestSide | EastSide

datatype plotTag = LandmassMember side | WaterMember side

record cell =
  terrain :: terrain
  tags :: "plotTag set"

type_synonym grid = "int \<times> int \<Rightarrow> cell"

text \<open>\<^verbatim>\<open>GameplayMap.getTerrainType(x, y)\<close> and \<^verbatim>\<open>TerrainBuilder.setTerrainType(x, y, t)\<close>.\<close>

definition getTerrainType :: "grid \<Rightarrow> int \<Rightarrow> int \<Rightarrow> terrain" where
  "getTerrainType g x y = terrain (g (x, y))"

definition setTerrainType :: "grid \<Rightarrow> int \<Rightarrow> int \<Rightarrow> terrain \<Rightarrow> grid" where
  "setTerrainType g x y t = g((x, y) := (g (x, y))\<lparr>terrain := t\<rparr>)"

text \<open>\<^verbatim>\<open>TerrainBuilder.setPlotTag(x, y, PlotTags.PLOT_TAG_NONE)\<close> clears the tags of a plot.\<close>

definition setPlotTagNone :: "grid \<Rightarrow> int \<Rightarrow> int \<Rightarrow> grid" where
  "setPlotTagNone g x y = g((x, y) := (g (x, y))\<lparr>tags := {}\<rparr>)"

text \<open>
  Modelled from the spec: \<^verbatim>\<open>utilities.addLandmassPlotTags\<close> and
  \<^verbatim>\<open>utilities.addWaterPlotTags\<close> belong to the engine's script library
  (\<^verbatim>\<open>/base-standard/maps/map-utilities.js\<close>) and are not part of the repository. The
  specification describes the tag set as purely additive metadata that marks a plot as
  landmass member or water member, on the west or the east side of the column handed in
  as third argument. They add to the tags a plot already has; only
  \<^verbatim>\<open>setPlotTag(x, y, PLOT_TAG_NONE)\<close> clears.
\<close>

definition tagSide :: "int \<Rightarrow> real \<Rightarrow> side" where
  "tagSide x eastLeftCol = (if eastLeftCol \<le> of_int x then EastSide else WestSide)"

definition addPlotTag :: "grid \<Rightarrow> int \<Rightarrow> int \<Rightarrow> plotTag \<Rightarrow> grid" where
  "addPlotTag g x y t = g((x, y) := (g (x, y))\<lparr>tags := insert t (tags (g (x, y)))\<rparr>)"

definition addLandmassPlotTags :: "grid \<Rightarrow> int \<Rightarrow> int \<Rightarrow> real \<Rightarrow> grid" where
  "addLandmassPlotTags g x y eastLeftCol = addPlotTag g x y (LandmassMember (tagSide x eastLeftCol))"

definition addWaterPlotTags :: "grid \<Rightarrow> int \<Rightarrow> int \<Rightarrow> real \<Rightarrow> grid" where
  "addWaterPlotTags g x y eastLeftCol = addPlotTag g x y (WaterMember (tagSide x eastLeftCol))"

text \<open>
  A full scan \<^verbatim>\<open>for (iY = 0; iY < iHeight; iY++) for (iX = 0; iX < iWidth; iX++)\<close>
  visits the plots in this order.
\<close>

definition scanOrder :: "int \<Rightarrow> int \<Rightarrow> (int \<times> int) list" where
  "scanOrder iWidth iHeight =
     concat (map (\<lambda>iY. map (\<lambda>iX. (iX, iY)) [0..iWidth - 1]) [0..iHeight - 1])"

section \<open>Engine services\<close>

text \<open>
  Everything the scripts call but do not define is a service of the game engine: map
  dimensions, the map-size table, the global tunables, the seeded random stream, the
  fractal builder, terrain validation and the later pipeline stages. The state of the
  engine that the scripts can change is the grid and the random stream; a world is the
  pair of both. The type \<open>'s\<close> is the state of the random stream, \<open>'f\<close> a fractal height
  field, \<open>'ss\<close> the start sectors.
\<close>

type_synonym 's world = "grid \<times> 's"

record mapInfo =
  PlayersLandmass1 :: int
  PlayersLandmass2 :: int
  NumNaturalWonders :: int
  LakeGenerationFrequency :: int
  StartSectorRows :: int
  StartSectorCols :: int

record 'n region =
  west :: 'n
  east :: 'n
  south :: 'n
  north :: 'n
  continent :: int

record ('s, 'f, 'ss) engine =
  getGridWidth :: int
  getGridHeight :: int
  mapsLookup :: "mapInfo option"
  g_OceanWaterColumns :: int
  g_PolarWaterRows :: int
  g_WaterPercent :: real
  g_Cutoff :: real
  getRandomNumber :: "int \<Rightarrow> 's \<Rightarrow> int \<times> 's"
  fractalCreate :: "int \<Rightarrow> int \<Rightarrow> int \<Rightarrow> int \<Rightarrow> 's \<Rightarrow> 'f \<times> 's"
  getHeightFromPercent :: "'f \<Rightarrow> real \<Rightarrow> real"
  getHeight :: "'f \<Rightarrow> int \<Rightarrow> int \<Rightarrow> real"
  getHeightAdjustingForStartSector ::
    "'f \<Rightarrow> int \<Rightarrow> int \<Rightarrow> real \<Rightarrow> real region \<Rightarrow> real region \<Rightarrow> int \<Rightarrow> int \<Rightarrow> 'ss \<Rightarrow> real"
  chooseStartSectors :: "int \<Rightarrow> int \<Rightarrow> int \<Rightarrow> int \<Rightarrow> 's \<Rightarrow> 'ss \<times> 's"
  validateAndFixTerrain :: "'s world \<Rightarrow> 's world"
  isAdjacentToShallowWater :: "grid \<Rightarrow> int \<Rightarrow> int \<Rightarrow> bool"
  smileyDownstream :: "mapInfo \<Rightarrow> int \<Rightarrow> int \<Rightarrow> 'ss \<Rightarrow> 's world \<Rightarrow> 's world"
  earthlikeDownstream :: "mapInfo \<Rightarrow> int region \<Rightarrow> int region \<Rightarrow> 's world \<Rightarrow> 's world"

datatype outcome = Aborted | Generated

section \<open>Coast expansion (smiley-face.js, expandCoasts)\<close>

text \<open>
  One iteration of the loop body at plot \<open>(iX, iY)\<close>. The adjacency query reads the grid
  as it stands when the plot is visited; the draw is
  \<^verbatim>\<open>TerrainBuilder.getRandomNumber(2, "Coast Expansion")\<close> and advances the stream only
  when it is made.
\<close>

fun expandCoastsStep ::
  "(grid \<Rightarrow> int \<Rightarrow> int \<Rightarrow> bool) \<Rightarrow> (int \<Rightarrow> 's \<Rightarrow> int \<times> 's) \<Rightarrow> 's world \<Rightarrow> int \<times> int \<Rightarrow> 's world" where
  "expandCoastsStep adj rnd (g, s) (iX, iY) =
     (if getTerrainType g iX iY = Ocean then
        (if adj g iX iY then
           (case rnd 2 s of (d, s') \<Rightarrow>
              if d = 0 then (setTerrainType g iX iY Coast, s') else (g, s'))
         else (g, s))
      else (g, s))"

definition expandCoastsOver ::
  "(grid \<Rightarrow> int \<Rightarrow> int \<Rightarrow> bool) \<Rightarrow> (int \<Rightarrow> 's \<Rightarrow> int \<times> 's) \<Rightarrow> 's world \<Rightarrow> (int \<times> int) list \<Rightarrow> 's world" where
  "expandCoastsOver adj rnd st cs = foldl (expandCoastsStep adj rnd) st cs"

definition expandCoasts ::
  "(grid \<Rightarrow> int \<Rightarrow> int \<Rightarrow> bool) \<Rightarrow> (int \<Rightarrow> 's \<Rightarrow> int \<times> 's) \<Rightarrow> int \<Rightarrow> int \<Rightarrow> 's world \<Rightarrow> 's world" where
  "expandCoasts adj rnd iWidth iHeight st = expandCoastsOver adj rnd st (scanOrder iWidth iHeight)"

text \<open>
  The scan the specification asks for: eligibility of every plot is read from a snapshot
  \<open>g0\<close> of the grid taken before the pass. It follows the words of the specification, not
  the source, and serves only for comparison with \<open>expandCoasts\<close>.
\<close>

fun snapshotStep ::
  "(grid \<Rightarrow> int \<Rightarrow> int \<Rightarrow> bool) \<Rightarrow> (int \<Rightarrow> 's \<Rightarrow> int \<times> 's) \<Rightarrow> grid \<Rightarrow> 's world \<Rightarrow> int \<times> int \<Rightarrow> 's world" where
  "snapshotStep adj rnd g0 (g, s) (iX, iY) =
     (if getTerrainType g0 iX iY = Ocean then
        (if adj g0 iX iY then
           (case rnd 2 s of (d, s') \<Rightarrow>
              if d = 0 then (setTerrainType g iX iY Coast, s') else (g, s'))
         else (g, s))
      else (g, s))"

definition expandCoastsSnapshot ::
  "(grid \<Rightarrow> int \<Rightarrow> int \<Rightarrow> bool) \<Rightarrow> (int \<Rightarrow> 's \<Rightarrow> int \<times> 's) \<Rightarrow> int \<Rightarrow> int \<Rightarrow> 's world \<Rightarrow> 's world" where
  "expandCoastsSnapshot adj rnd iWidth iHeight st =
     foldl (snapshotStep adj rnd (fst st)) st (scanOrder iWidth iHeight)"

section \<open>Single-pass classifier with shape mask (smiley-face.js)\<close>

text \<open>
  The shape mask of \<^verbatim>\<open>createSmileyLandmasses\<close>: two eye discs and a sinusoidal mouth
  band around the centre of the continent the column belongs to. JavaScript numbers are
  read as reals, \<^verbatim>\<open>Math.sqrt\<close>, \<^verbatim>\<open>Math.sin\<close> and \<^verbatim>\<open>Math.PI\<close> as their exact
  counterparts. For a map lower than six rows \<^verbatim>\<open>mouthWidth\<close> is zero, the division yields
  an infinity or NaN, and every comparison with the resulting NaN is false; the guard
  \<open>mouthWidth \<noteq> 0\<close> writes that out. \<^verbatim>\<open>generateMap\<close> passes two distinct region
  objects, so \<^verbatim>\<open>currentContinent == continent1\<close> holds exactly for the columns left of
  the middle. The script also computes \<^verbatim>\<open>distanceToMouthCenter\<close> and never reads it.
\<close>

definition isInFeature :: "int \<Rightarrow> int \<Rightarrow> real region \<Rightarrow> real region \<Rightarrow> int \<Rightarrow> int \<Rightarrow> bool" where
  "isInFeature iWidth iHeight continent1 continent2 iX iY =
     (let eyeRadius = real_of_int (iHeight div 12);
          mouthWidth = real_of_int (iHeight div 6);
          mouthHeight = real_of_int (iHeight div 12);
          continentCenterX =
            (if real_of_int iX < real_of_int iWidth / 2
             then (west continent1 + east continent1) / 2
             else (west continent2 + east continent2) / 2);
          continentCenterY = real_of_int iHeight / 2;
          leftEyeX = continentCenterX - eyeRadius * 2;
          rightEyeX = continentCenterX + eyeRadius * 2;
          eyeY = continentCenterY + eyeRadius * 2;
          mouthY = continentCenterY - eyeRadius * 2;
          distanceToLeftEye = sqrt ((real_of_int iX - leftEyeX)\<^sup>2 + (real_of_int iY - eyeY)\<^sup>2);
          distanceToRightEye = sqrt ((real_of_int iX - rightEyeX)\<^sup>2 + (real_of_int iY - eyeY)\<^sup>2);
          mouthCurve = sin ((real_of_int iX - continentCenterX) / mouthWidth * pi) * mouthHeight
      in distanceToLeftEye < eyeRadius \<or>
         distanceToRightEye < eyeRadius \<or>
         (mouthWidth \<noteq> 0 \<and>
          \<bar>real_of_int iY - (mouthY + mouthCurve)\<bar> < mouthHeight / 2 \<and>
          \<bar>real_of_int iX - continentCenterX\<bar> < mouthWidth))"

text \<open>
  The terrain the loop body chooses for plot \<open>(iX, iY)\<close>. \<open>plotHeight\<close> stands for the call
  \<^verbatim>\<open>utilities.getHeightAdjustingForStartSector(iX, iY, ...)\<close>, whose other arguments do
  not change during the scan.
\<close>

definition smileyTerrain ::
  "int \<Rightarrow> int \<Rightarrow> real region \<Rightarrow> real region \<Rightarrow> (int \<Rightarrow> int \<Rightarrow> real) \<Rightarrow> real \<Rightarrow> real \<Rightarrow> int \<Rightarrow> int \<Rightarrow> terrain" where
  "smileyTerrain iWidth iHeight continent1 continent2 plotHeight iWaterHeight cutoff iX iY =
     (if real_of_int iY < south continent1 \<or> north continent1 \<le> real_of_int iY then Ocean
      else if real_of_int iX < west continent1 \<or> east continent2 \<le> real_of_int iX \<or>
              (east continent1 \<le> real_of_int iX \<and> real_of_int iX < west continent2) then Ocean
      else if isInFeature iWidth iHeight continent1 continent2 iX iY \<or>
              plotHeight iX iY < iWaterHeight * cutoff then Ocean
      else Flat)"

fun smileyPlot ::
  "int \<Rightarrow> int \<Rightarrow> real region \<Rightarrow> real region \<Rightarrow> (int \<Rightarrow> int \<Rightarrow> real) \<Rightarrow> real \<Rightarrow> real \<Rightarrow> grid \<Rightarrow> int \<times> int \<Rightarrow> grid" where
  "smileyPlot iWidth iHeight continent1 continent2 plotHeight iWaterHeight cutoff g (iX, iY) =
     (let t = smileyTerrain iWidth iHeight continent1 continent2 plotHeight iWaterHeight cutoff iX iY;
          g1 = setPlotTagNone g iX iY;
          g2 = (if t \<noteq> Ocean \<and> t \<noteq> Coast
                then addLandmassPlotTags g1 iX iY (west continent2)
                else addWaterPlotTags g1 iX iY (west continent2))
      in setTerrainType g2 iX iY t)"

definition createSmileyLandmasses ::
  "('s, 'f, 'ss) engine \<Rightarrow> int \<Rightarrow> int \<Rightarrow> real region \<Rightarrow> real region \<Rightarrow> int \<Rightarrow> int \<Rightarrow> 'ss \<Rightarrow> 's world \<Rightarrow> 's world" where
  "createSmileyLandmasses eng iWidth iHeight continent1 continent2 iStartSectorRows iStartSectorCols startSectors st =
     (case fractalCreate eng iWidth iHeight 2 0 (snd st) of (f, s1) \<Rightarrow>
        let iWaterHeight = getHeightFromPercent eng f (g_WaterPercent eng);
            plotHeight = (\<lambda>iX iY. getHeightAdjustingForStartSector eng f iX iY iWaterHeight
                             continent1 continent2 iStartSectorRows iStartSectorCols startSectors)
        in (foldl (smileyPlot iWidth iHeight continent1 continent2 plotHeight iWaterHeight (g_Cutoff eng))
              (fst st) (scanOrder iWidth iHeight), s1))"

text \<open>The two regions of \<^verbatim>\<open>generateMap\<close>: twelve columns of ocean on either side of the middle.\<close>

definition smileyWest :: "('s, 'f, 'ss) engine \<Rightarrow> real region" where
  "smileyWest eng =
     \<lparr>west = real_of_int (g_OceanWaterColumns eng),
      east = real_of_int (getGridWidth eng) / 2 - 12,
      south = real_of_int (g_PolarWaterRows eng),
      north = real_of_int (getGridHeight eng) - real_of_int (g_PolarWaterRows eng),
      continent = 0\<rparr>"

definition smileyEast :: "('s, 'f, 'ss) engine \<Rightarrow> real region" where
  "smileyEast eng =
     \<lparr>west = real_of_int (getGridWidth eng) / 2 + 12,
      east = real_of_int (getGridWidth eng) - real_of_int (g_OceanWaterColumns eng),
      south = real_of_int (g_PolarWaterRows eng),
      north = real_of_int (getGridHeight eng) - real_of_int (g_PolarWaterRows eng),
      continent = 1\<rparr>"

text \<open>
  The water height and the per-plot height that \<^verbatim>\<open>createSmileyLandmasses\<close> obtains from
  the engine, named so that statements about single plots can refer to them.
\<close>

definition smileyWaterHeight :: "('s, 'f, 'ss) engine \<Rightarrow> int \<Rightarrow> int \<Rightarrow> 's \<Rightarrow> real" where
  "smileyWaterHeight eng iWidth iHeight s =
     getHeightFromPercent eng (fst (fractalCreate eng iWidth iHeight 2 0 s)) (g_WaterPercent eng)"

definition smileyPlotHeight ::
  "('s, 'f, 'ss) engine \<Rightarrow> int \<Rightarrow> int \<Rightarrow> real region \<Rightarrow> real region \<Rightarrow> int \<Rightarrow> int \<Rightarrow> 'ss \<Rightarrow> 's \<Rightarrow> int \<Rightarrow> int \<Rightarrow> real" where
  "smileyPlotHeight eng iWidth iHeight continent1 continent2 iStartSectorRows iStartSectorCols startSectors s iX iY =
     getHeightAdjustingForStartSector eng (fst (fractalCreate eng iWidth iHeight 2 0 s)) iX iY
       (smileyWaterHeight eng iWidth iHeight s)
       continent1 continent2 iStartSectorRows iStartSectorCols startSectors"

text \<open>
  \<^verbatim>\<open>generateMap\<close> up to the end of coast expansion: the coin flip for the player
  counts, the start sectors and the classifier (\<open>smileyClassify\<close>), then the engine's
  validation and the coast pass (\<open>smileyTerrainStages\<close>).
\<close>

definition smileyClassify :: "('s, 'f, 'ss) engine \<Rightarrow> mapInfo \<Rightarrow> 's world \<Rightarrow> (int \<times> int \<times> 'ss) \<times> 's world" where
  "smileyClassify eng info st =
     (case getRandomNumber eng 2 (snd st) of (iRandom, s1) \<Rightarrow>
        let iNumPlayers1 = (if iRandom = 1 then PlayersLandmass2 info else PlayersLandmass1 info);
            iNumPlayers2 = (if iRandom = 1 then PlayersLandmass1 info else PlayersLandmass2 info)
        in case chooseStartSectors eng iNumPlayers1 iNumPlayers2
                  (StartSectorRows info) (StartSectorCols info) s1 of (startSectors, s2) \<Rightarrow>
             ((iNumPlayers1, iNumPlayers2, startSectors),
              createSmileyLandmasses eng (getGridWidth eng) (getGridHeight eng)
                (smileyWest eng) (smileyEast eng)
                (StartSectorRows info) (StartSectorCols info) startSectors (fst st, s2)))"

definition smileyTerrainStages :: "('s, 'f, 'ss) engine \<Rightarrow> mapInfo \<Rightarrow> 's world \<Rightarrow> (int \<times> int \<times> 'ss) \<times> 's world" where
  "smileyTerrainStages eng info st =
     (case smileyClassify eng info st of (players, st3) \<Rightarrow>
        (players,
         expandCoasts (isAdjacentToShallowWater eng) (getRandomNumber eng)
           (getGridWidth eng) (getGridHeight eng) (validateAndFixTerrain eng st3)))"

definition smileyGenerateMap :: "('s, 'f, 'ss) engine \<Rightarrow> 's world \<Rightarrow> outcome \<times> 's world" where
  "smileyGenerateMap eng st =
     (case mapsLookup eng of
        None \<Rightarrow> (Aborted, st)
      | Some info \<Rightarrow>
          (case smileyTerrainStages eng info st of ((iNumPlayers1, iNumPlayers2, startSectors), st5) \<Rightarrow>
             (Generated, smileyDownstream eng info iNumPlayers1 iNumPlayers2 startSectors st5)))"

section \<open>Two-pass classifier (earthlike.js)\<close>

definition regionCells :: "int region \<Rightarrow> (int \<times> int) list" where
  "regionCells c =
     concat (map (\<lambda>y. map (\<lambda>x. (x, y)) [west c..east c]) [south c..north c])"

fun initPlot :: "grid \<Rightarrow> int \<times> int \<Rightarrow> grid" where
  "initPlot g (x, y) = setPlotTagNone (setTerrainType g x y Ocean) x y"

fun primaryStep :: "(int \<Rightarrow> int \<Rightarrow> real) \<Rightarrow> real \<Rightarrow> real \<Rightarrow> grid \<Rightarrow> int \<times> int \<Rightarrow> grid" where
  "primaryStep height waterThresholdPrimary eastWest g (x, y) =
     (if getTerrainType g x y = Ocean then
        (if waterThresholdPrimary \<le> height x y
         then addLandmassPlotTags (setTerrainType g x y Flat) x y eastWest
         else g)
      else g)"

fun secondaryStep :: "(int \<Rightarrow> int \<Rightarrow> real) \<Rightarrow> real \<Rightarrow> real \<Rightarrow> grid \<Rightarrow> int \<times> int \<Rightarrow> grid" where
  "secondaryStep height waterThresholdSecondary eastWest g (x, y) =
     (if getTerrainType g x y = Flat then
        (if height x y < waterThresholdSecondary
         then addWaterPlotTags (setTerrainType g x y Ocean) x y eastWest
         else g)
      else g)"

text \<open>
  The two halves of \<^verbatim>\<open>createContinent\<close>: each builds its own fractal (sizes 3 and 4)
  and scans the region with both bounds inclusive, as the loops
  \<^verbatim>\<open>y <= continent.north\<close> and \<^verbatim>\<open>x <= continent.east\<close> do.
\<close>

definition primaryPass :: "('s, 'f, 'ss) engine \<Rightarrow> int \<Rightarrow> int \<Rightarrow> real \<Rightarrow> int region \<Rightarrow> 's world \<Rightarrow> 's world" where
  "primaryPass eng iWidth iHeight eastWest c st =
     (case fractalCreate eng iWidth iHeight 3 0 (snd st) of (f, s1) \<Rightarrow>
        (foldl (primaryStep (getHeight eng f) (getHeightFromPercent eng f 20) eastWest)
           (fst st) (regionCells c), s1))"

definition secondaryPass :: "('s, 'f, 'ss) engine \<Rightarrow> int \<Rightarrow> int \<Rightarrow> real \<Rightarrow> int region \<Rightarrow> 's world \<Rightarrow> 's world" where
  "secondaryPass eng iWidth iHeight eastWest c st =
     (case fractalCreate eng iWidth iHeight 4 0 (snd st) of (f, s1) \<Rightarrow>
        (foldl (secondaryStep (getHeight eng f) (getHeightFromPercent eng f (20 + 10)) eastWest)
           (fst st) (regionCells c), s1))"

definition createContinent :: "('s, 'f, 'ss) engine \<Rightarrow> int \<Rightarrow> int \<Rightarrow> real \<Rightarrow> int region \<Rightarrow> 's world \<Rightarrow> 's world" where
  "createContinent eng iWidth iHeight eastWest c st =
     secondaryPass eng iWidth iHeight eastWest c (primaryPass eng iWidth iHeight eastWest c st)"

definition gapStart :: "int \<Rightarrow> int" where
  "gapStart iWidth = iWidth div 2 - 8 div 2"

definition gapEnd :: "int \<Rightarrow> int" where
  "gapEnd iWidth = gapStart iWidth + 8 - 1"

definition earthlikeWest :: "('s, 'f, 'ss) engine \<Rightarrow> int region" where
  "earthlikeWest eng =
     \<lparr>west = g_OceanWaterColumns eng,
      east = gapStart (getGridWidth eng) - 1,
      south = g_PolarWaterRows eng,
      north = getGridHeight eng - g_PolarWaterRows eng,
      continent = 0\<rparr>"

definition earthlikeEast :: "('s, 'f, 'ss) engine \<Rightarrow> int region" where
  "earthlikeEast eng =
     \<lparr>west = gapEnd (getGridWidth eng) + 1,
      east = getGridWidth eng - g_OceanWaterColumns eng,
      south = g_PolarWaterRows eng,
      north = getGridHeight eng - g_PolarWaterRows eng,
      continent = 1\<rparr>"

text \<open>
  \<^verbatim>\<open>generateMap\<close> up to the second \<^verbatim>\<open>createContinent\<close>: the water world, then the west
  and the east continent. Validation, coast expansion and all later stages of this script
  are engine code.
\<close>

definition earthlikeClassify :: "('s, 'f, 'ss) engine \<Rightarrow> 's world \<Rightarrow> 's world" where
  "earthlikeClassify eng st =
     (let iWidth = getGridWidth eng;
          iHeight = getGridHeight eng;
          eastWest = real_of_int (west (earthlikeEast eng));
          g0 = foldl initPlot (fst st) (scanOrder iWidth iHeight);
          st1 = createContinent eng iWidth iHeight eastWest (earthlikeWest eng) (g0, snd st)
      in createContinent eng iWidth iHeight eastWest (earthlikeEast eng) st1)"

definition earthlikeGenerateMap :: "('s, 'f, 'ss) engine \<Rightarrow> 's world \<Rightarrow> outcome \<times> 's world" where
  "earthlikeGenerateMap eng st =
     (case mapsLookup eng of
        None \<Rightarrow> (Aborted, st)
      | Some info \<Rightarrow>
          (Generated, earthlikeDownstream eng info (earthlikeWest eng) (earthlikeEast eng)
                        (earthlikeClassify eng st)))"

section \<open>Concrete engines for evaluation\<close>

text \<open>
  The source tests a plot for land with
  \<^verbatim>\<open>terrain != g_OceanTerrain && terrain != g_CoastTerrain\<close>.
\<close>

definition isWater :: "terrain \<Rightarrow> bool" where
  "isWater t = (t = Ocean \<or> t = Coast)"

text \<open>The plots west, east, south and north of a plot; on the engine's hex grid these are
  neighbours of it as well.\<close>

definition neighbours :: "int \<Rightarrow> int \<Rightarrow> (int \<times> int) list" where
  "neighbours x y = [(x - 1, y), (x + 1, y), (x, y - 1), (x, y + 1)]"

text \<open>
  \<^verbatim>\<open>GameplayMap.isAdjacentToShallowWater\<close> is an engine query. The comment at its call
  (\<^verbatim>\<open>Check if this ocean tile is adjacent to any shallow water\<close>) and the glossary of the
  specification (Coast is the shallow-water terrain kind) read it as: a neighbouring plot
  holds Coast. \<open>adjacentToLand\<close> is the other reading found in the specification, a
  neighbouring plot holds land.
\<close>

definition adjacentToCoast :: "grid \<Rightarrow> int \<Rightarrow> int \<Rightarrow> bool" where
  "adjacentToCoast g x y = list_ex (\<lambda>c. terrain (g c) = Coast) (neighbours x y)"

definition adjacentToLand :: "grid \<Rightarrow> int \<Rightarrow> int \<Rightarrow> bool" where
  "adjacentToLand g x y = list_ex (\<lambda>c. \<not> isWater (terrain (g c))) (neighbours x y)"

text \<open>
  \<^verbatim>\<open>TerrainBuilder.validateAndFixTerrain\<close> is engine code as well. Between a classifier
  that writes only Flat and Ocean and a coast pass that needs shallow water to start
  from, it is the stage that makes the first Coast plots. \<open>shoreFix\<close> is the instance used
  for evaluation: every Ocean plot with a land neighbour becomes Coast, nothing else
  changes.
\<close>

definition shoreFix :: "'s world \<Rightarrow> 's world" where
  "shoreFix st =
     (\<lambda>c. if terrain (fst st c) = Ocean \<and> adjacentToLand (fst st) (fst c) (snd c)
          then (fst st c)\<lparr>terrain := Coast\<rparr> else fst st c, snd st)"

definition standardInfo :: mapInfo where
  "standardInfo = \<lparr>PlayersLandmass1 = 4, PlayersLandmass2 = 4, NumNaturalWonders = 6,
                    LakeGenerationFrequency = 25, StartSectorRows = 3, StartSectorCols = 3\<rparr>"

text \<open>
  An engine of the standard map size, 84 by 54 plots, four ocean columns and two polar
  rows. Every draw returns 0 and the random state records the ranges asked for. The
  fractal of size 4 is low in column 10 and high elsewhere; every other height is above
  the water level.
\<close>

definition standardEngine :: "(int list, int, unit) engine" where
  "standardEngine =
     \<lparr>getGridWidth = 84, getGridHeight = 54,
      mapsLookup = Some standardInfo,
      g_OceanWaterColumns = 4, g_PolarWaterRows = 2, g_WaterPercent = 20, g_Cutoff = 2,
      getRandomNumber = (\<lambda>n s. (0, n # s)),
      fractalCreate = (\<lambda>w h size flags s. (size, s)),
      getHeightFromPercent = (\<lambda>f p. 10),
      getHeight = (\<lambda>f x y. if f = 4 \<and> x = 10 then 0 else 100),
      getHeightAdjustingForStartSector = (\<lambda>f x y wh c1 c2 rows cols ss. 100),
      chooseStartSectors = (\<lambda>p1 p2 rows cols s. ((), s)),
      validateAndFixTerrain = shoreFix,
      isAdjacentToShallowWater = adjacentToCoast,
      smileyDownstream = (\<lambda>info p1 p2 ss st. st),
      earthlikeDownstream = (\<lambda>info w e st. st)\<rparr>"

text \<open>
  The same engine under the other reading: validation changes nothing and the adjacency
  query means a land neighbour.
\<close>

definition landReadingEngine :: "(int list, int, unit) engine" where
  "landReadingEngine =
     standardEngine\<lparr>validateAndFixTerrain := (\<lambda>st. st), isAdjacentToShallowWater := adjacentToLand\<rparr>"

text \<open>Two grids an earlier run may have left behind, all ocean and all mountain inside
  the map, and a row of plots given by its terrain kinds.\<close>

definition oceanGrid :: grid where
  "oceanGrid = (\<lambda>c. \<lparr>terrain = Ocean, tags = {}\<rparr>)"

definition mountainGrid :: "int \<Rightarrow> int \<Rightarrow> grid" where
  "mountainGrid iWidth iHeight =
     (\<lambda>c. if 0 \<le> fst c \<and> fst c < iWidth \<and> 0 \<le> snd c \<and> snd c < iHeight
          then \<lparr>terrain = Mountain, tags = {LandmassMember WestSide}\<rparr>
          else \<lparr>terrain = Ocean, tags = {}\<rparr>)"

definition rowGrid :: "terrain list \<Rightarrow> grid" where
  "rowGrid ts =
     (\<lambda>c. \<lparr>terrain = (if snd c = 0 \<and> 0 \<le> fst c \<and> fst c < int (length ts)
                        then ts ! nat (fst c) else Ocean),
              tags = {}\<rparr>)"

section \<open>Scans that rewrite one plot at a time\<close>

lemma set_scanOrder:
  "set (scanOrder w h) = {(x, y). 0 \<le> x \<and> x < w \<and> 0 \<le> y \<and> y < h}"
  by (auto simp: scanOrder_def)

lemma distinct_rows:
  "distinct xs \<Longrightarrow> distinct ys \<Longrightarrow> distinct (concat (map (\<lambda>y. map (\<lambda>x. (x, y)) xs) ys))"
  by (induction ys) (auto simp: distinct_map inj_on_def)

lemma distinct_scanOrder: "distinct (scanOrder w h)"
  unfolding scanOrder_def by (rule distinct_rows) simp_all

lemma set_regionCells:
  "set (regionCells c) = {(x, y). west c \<le> x \<and> x \<le> east c \<and> south c \<le> y \<and> y \<le> north c}"
  by (auto simp: regionCells_def)

lemma distinct_regionCells: "distinct (regionCells c)"
  unfolding regionCells_def by (rule distinct_rows) simp_all

text \<open>A scan whose body rewrites only the plot it visits.\<close>

lemma foldl_local:
  assumes "\<And>g c. step g c = g(c := upd c (g c))" and "distinct cs"
  shows "foldl step g cs = (\<lambda>d. if d \<in> set cs then upd d (g d) else g d)"
  using assms(2)
proof (induction cs arbitrary: g)
  case Nil
  then show ?case by simp
next
  case (Cons c cs)
  then show ?case by (auto simp: assms(1) fun_eq_iff)
qed

lemma secondaryStep_local:
  "secondaryStep hgt thr ew g c =
     g(c := (if terrain (g c) = Flat \<and> hgt (fst c) (snd c) < thr
             then (g c)\<lparr>terrain := Ocean, tags := insert (WaterMember (tagSide (fst c) ew)) (tags (g c))\<rparr>
             else g c))"
  by (cases c) (auto simp: getTerrainType_def setTerrainType_def addWaterPlotTags_def addPlotTag_def fun_eq_iff)

lemma primaryStep_local:
  "primaryStep hgt thr ew g c =
     g(c := (if terrain (g c) = Ocean \<and> thr \<le> hgt (fst c) (snd c)
             then (g c)\<lparr>terrain := Flat, tags := insert (LandmassMember (tagSide (fst c) ew)) (tags (g c))\<rparr>
             else g c))"
  by (cases c) (auto simp: getTerrainType_def setTerrainType_def addLandmassPlotTags_def addPlotTag_def fun_eq_iff)

lemma initPlot_local: "initPlot g c = g(c := \<lparr>terrain = Ocean, tags = {}\<rparr>)"
  by (cases c) (auto simp: setTerrainType_def setPlotTagNone_def fun_eq_iff)

lemma foldl_secondaryStep:
  "foldl (secondaryStep hgt thr ew) g (regionCells c) =
     (\<lambda>d. if d \<in> set (regionCells c) \<and> terrain (g d) = Flat \<and> hgt (fst d) (snd d) < thr
          then (g d)\<lparr>terrain := Ocean, tags := insert (WaterMember (tagSide (fst d) ew)) (tags (g d))\<rparr>
          else g d)"
  by (subst foldl_local[where upd = "\<lambda>c v. if terrain v = Flat \<and> hgt (fst c) (snd c) < thr
             then v\<lparr>terrain := Ocean, tags := insert (WaterMember (tagSide (fst c) ew)) (tags v)\<rparr> else v"])
     (auto simp: secondaryStep_local distinct_regionCells fun_eq_iff)

lemma foldl_primaryStep:
  "foldl (primaryStep hgt thr ew) g (regionCells c) =
     (\<lambda>d. if d \<in> set (regionCells c) \<and> terrain (g d) = Ocean \<and> thr \<le> hgt (fst d) (snd d)
          then (g d)\<lparr>terrain := Flat, tags := insert (LandmassMember (tagSide (fst d) ew)) (tags (g d))\<rparr>
          else g d)"
  by (subst foldl_local[where upd = "\<lambda>c v. if terrain v = Ocean \<and> thr \<le> hgt (fst c) (snd c)
             then v\<lparr>terrain := Flat, tags := insert (LandmassMember (tagSide (fst c) ew)) (tags v)\<rparr> else v"])
     (auto simp: primaryStep_local distinct_regionCells fun_eq_iff)

lemma foldl_initPlot:
  "foldl initPlot g (scanOrder w h) =
     (\<lambda>d. if d \<in> set (scanOrder w h) then \<lparr>terrain = Ocean, tags = {}\<rparr> else g d)"
  by (subst foldl_local[where upd = "\<lambda>c v. \<lparr>terrain = Ocean, tags = {}\<rparr>"])
     (auto simp: initPlot_local distinct_scanOrder fun_eq_iff)

section \<open>Properties of the coast pass\<close>

lemma expandCoastsStep_cases:
  "expandCoastsStep adj rnd (g, s) c = (g, s) \<or>
   expandCoastsStep adj rnd (g, s) c = (g, snd (rnd 2 s)) \<or>
   (terrain (g c) = Ocean \<and> adj g (fst c) (snd c) \<and> fst (rnd 2 s) = 0 \<and>
    expandCoastsStep adj rnd (g, s) c = (g(c := (g c)\<lparr>terrain := Coast\<rparr>), snd (rnd 2 s)))"
  by (cases c) (auto simp: getTerrainType_def setTerrainType_def split: prod.splits)

lemma expandCoastsStep_grid:
  "fst (expandCoastsStep adj rnd (g, s) c) d = g d \<or>
   (d = c \<and> terrain (g d) = Ocean \<and> adj g (fst c) (snd c) \<and> fst (rnd 2 s) = 0 \<and>
    fst (expandCoastsStep adj rnd (g, s) c) d = (g d)\<lparr>terrain := Coast\<rparr>)"
  using expandCoastsStep_cases[of adj rnd g s c] by (cases "d = c") auto

lemma expandCoastsOver_grid:
  "fst (expandCoastsOver adj rnd (g, s) cs) d = g d \<or>
   (d \<in> set cs \<and> terrain (g d) = Ocean \<and>
    fst (expandCoastsOver adj rnd (g, s) cs) d = (g d)\<lparr>terrain := Coast\<rparr>)"
proof (induction cs arbitrary: g s)
  case Nil
  then show ?case by (simp add: expandCoastsOver_def)
next
  case (Cons c cs)
  obtain g1 s1 where st: "expandCoastsStep adj rnd (g, s) c = (g1, s1)"
    by (cases "expandCoastsStep adj rnd (g, s) c")
  have unfold: "expandCoastsOver adj rnd (g, s) (c # cs) = expandCoastsOver adj rnd (g1, s1) cs"
    by (simp add: expandCoastsOver_def st)
  from expandCoastsStep_grid[of adj rnd g s c d] st
  have first: "g1 d = g d \<or> (d = c \<and> terrain (g d) = Ocean \<and> g1 d = (g d)\<lparr>terrain := Coast\<rparr>)"
    by auto
  from Cons.IH[of g1 s1]
  have rest: "fst (expandCoastsOver adj rnd (g1, s1) cs) d = g1 d \<or>
     (d \<in> set cs \<and> terrain (g1 d) = Ocean \<and>
      fst (expandCoastsOver adj rnd (g1, s1) cs) d = (g1 d)\<lparr>terrain := Coast\<rparr>)" .
  from first rest show ?case unfolding unfold by auto
qed

lemma expandCoastsOver_append:
  "expandCoastsOver adj rnd st (cs @ ds) = expandCoastsOver adj rnd (expandCoastsOver adj rnd st cs) ds"
  by (simp add: expandCoastsOver_def)

lemma expandCoastsOver_single:
  "expandCoastsOver adj rnd st [c] = expandCoastsStep adj rnd st c"
  by (simp add: expandCoastsOver_def)

text \<open>A plot that the pass turned into Coast was decided when it was visited.\<close>

lemma expandCoastsOver_origin:
  assumes "terrain (fst (expandCoastsOver adj rnd (g, s) cs) d) = Coast" and "terrain (g d) \<noteq> Coast"
  shows "\<exists>pre post gk sk. cs = pre @ d # post \<and> expandCoastsOver adj rnd (g, s) pre = (gk, sk) \<and>
           terrain (gk d) = Ocean \<and> adj gk (fst d) (snd d) \<and> fst (rnd 2 sk) = 0"
  using assms
proof (induction cs rule: rev_induct)
  case Nil
  then show ?case by (simp add: expandCoastsOver_def)
next
  case (snoc c cs)
  obtain gk sk where k: "expandCoastsOver adj rnd (g, s) cs = (gk, sk)"
    by (cases "expandCoastsOver adj rnd (g, s) cs")
  have last: "expandCoastsOver adj rnd (g, s) (cs @ [c]) = expandCoastsStep adj rnd (gk, sk) c"
    by (simp add: expandCoastsOver_append expandCoastsOver_single k)
  show ?case
  proof (cases "terrain (gk d) = Coast")
    case True
    with snoc.IH snoc.prems(2) k obtain pre post gj sj where
      "cs = pre @ d # post" "expandCoastsOver adj rnd (g, s) pre = (gj, sj)"
      "terrain (gj d) = Ocean" "adj gj (fst d) (snd d)" "fst (rnd 2 sj) = 0"
      by auto
    then have "cs @ [c] = pre @ d # (post @ [c])" by simp
    with \<open>expandCoastsOver adj rnd (g, s) pre = (gj, sj)\<close> \<open>terrain (gj d) = Ocean\<close>
      \<open>adj gj (fst d) (snd d)\<close> \<open>fst (rnd 2 sj) = 0\<close>
    show ?thesis by blast
  next
    case False
    from expandCoastsStep_grid[of adj rnd gk sk c d] snoc.prems(1) False last
    have "d = c \<and> terrain (gk d) = Ocean \<and> adj gk (fst c) (snd c) \<and> fst (rnd 2 sk) = 0"
      by auto
    with k show ?thesis by auto
  qed
qed

text \<open>The in-place scan agrees with the snapshot scan when promotions do not change
  the adjacency query.\<close>

lemma inplace_eq_snapshot:
  assumes stable: "\<And>g a b x y. getTerrainType g a b = Ocean \<Longrightarrow>
                     adj (setTerrainType g a b Coast) x y = adj g x y"
    and "distinct cs" and "\<And>x y. adj g x y = adj g0 x y" and "\<And>c. c \<in> set cs \<Longrightarrow> g c = g0 c"
  shows "foldl (expandCoastsStep adj rnd) (g, s) cs = foldl (snapshotStep adj rnd g0) (g, s) cs"
  using assms(2-)
proof (induction cs arbitrary: g s)
  case Nil
  then show ?case by simp
next
  case (Cons c cs)
  obtain x y where c: "c = (x, y)" by (cases c)
  have same: "snapshotStep adj rnd g0 (g, s) c = expandCoastsStep adj rnd (g, s) c"
    using Cons.prems(2) Cons.prems(3)[of c] by (simp add: c getTerrainType_def)
  obtain g1 s1 where st: "expandCoastsStep adj rnd (g, s) c = (g1, s1)"
    by (cases "expandCoastsStep adj rnd (g, s) c")
  have g1: "g1 = g \<or> (getTerrainType g x y = Ocean \<and> g1 = setTerrainType g x y Coast)"
    using st by (auto simp: c split: if_splits prod.splits)
  have adj1: "\<And>a b. adj g1 a b = adj g0 a b"
    using g1 stable Cons.prems(2) by auto
  have keep: "\<And>d. d \<in> set cs \<Longrightarrow> g1 d = g0 d"
  proof -
    fix d assume d: "d \<in> set cs"
    with Cons.prems(1) have "d \<noteq> c" by auto
    with g1 have "g1 d = g d" by (auto simp: setTerrainType_def c)
    with Cons.prems(3)[of d] d show "g1 d = g0 d" by simp
  qed
  from Cons.IH[of g1 s1] Cons.prems(1) adj1 keep
  have "foldl (expandCoastsStep adj rnd) (g1, s1) cs = foldl (snapshotStep adj rnd g0) (g1, s1) cs"
    by auto
  then show ?case by (simp add: same st)
qed

section \<open>Small scans and the two adjacency readings\<close>

lemma scanOrder_2_1: "scanOrder 2 1 = [(0, 0), (1, 0)]"
  by (simp add: scanOrder_def upto_rec1)

lemma scanOrder_3_1: "scanOrder 3 1 = [(0, 0), (1, 0), (2, 0)]"
  by (simp add: scanOrder_def upto_rec1)

lemma scanOrder_4_1: "scanOrder 4 1 = [(0, 0), (1, 0), (2, 0), (3, 0)]"
  by (simp add: scanOrder_def upto_rec1)

lemma adjacentToLand_stable:
  "getTerrainType g a b = Ocean \<Longrightarrow>
     adjacentToLand (setTerrainType g a b Coast) x y = adjacentToLand g x y"
  by (auto simp: adjacentToLand_def neighbours_def setTerrainType_def isWater_def getTerrainType_def)

section \<open>The single-pass classifier plot by plot\<close>

lemma smileyPlot_local:
  "smileyPlot w h c1 c2 ph wh cf g p =
     g(p := \<lparr>terrain = smileyTerrain w h c1 c2 ph wh cf (fst p) (snd p),
              tags = {if isWater (smileyTerrain w h c1 c2 ph wh cf (fst p) (snd p))
                      then WaterMember (tagSide (fst p) (west c2))
                      else LandmassMember (tagSide (fst p) (west c2))}\<rparr>)"
  by (cases p)
     (auto simp: Let_def setTerrainType_def setPlotTagNone_def addLandmassPlotTags_def
        addWaterPlotTags_def addPlotTag_def isWater_def fun_eq_iff)

lemma foldl_smileyPlot:
  "foldl (smileyPlot w h c1 c2 ph wh cf) g (scanOrder w h) =
     (\<lambda>p. if p \<in> set (scanOrder w h)
          then \<lparr>terrain = smileyTerrain w h c1 c2 ph wh cf (fst p) (snd p),
                tags = {if isWater (smileyTerrain w h c1 c2 ph wh cf (fst p) (snd p))
                        then WaterMember (tagSide (fst p) (west c2))
                        else LandmassMember (tagSide (fst p) (west c2))}\<rparr>
          else g p)"
  by (subst foldl_local[where upd = "\<lambda>p v. \<lparr>terrain = smileyTerrain w h c1 c2 ph wh cf (fst p) (snd p),
                tags = {if isWater (smileyTerrain w h c1 c2 ph wh cf (fst p) (snd p))
                        then WaterMember (tagSide (fst p) (west c2))
                        else LandmassMember (tagSide (fst p) (west c2))}\<rparr>"])
     (simp_all add: smileyPlot_local distinct_scanOrder)

lemma createSmileyLandmasses_grid:
  "fst (createSmileyLandmasses eng w h c1 c2 rows cols ss st) =
     foldl (smileyPlot w h c1 c2 (smileyPlotHeight eng w h c1 c2 rows cols ss (snd st))
              (smileyWaterHeight eng w h (snd st)) (g_Cutoff eng)) (fst st) (scanOrder w h)"
  by (cases "fractalCreate eng w h 2 0 (snd st)")
     (simp add: createSmileyLandmasses_def smileyPlotHeight_def[abs_def] smileyWaterHeight_def Let_def)

lemma createSmileyLandmasses_terrain:
  assumes "0 \<le> x" "x < w" "0 \<le> y" "y < h"
  shows "getTerrainType (fst (createSmileyLandmasses eng w h c1 c2 rows cols ss st)) x y =
           smileyTerrain w h c1 c2 (smileyPlotHeight eng w h c1 c2 rows cols ss (snd st))
             (smileyWaterHeight eng w h (snd st)) (g_Cutoff eng) x y"
  using assms
  by (simp add: createSmileyLandmasses_grid foldl_smileyPlot set_scanOrder getTerrainType_def)

text \<open>The classifier writes every plot of the grid, so what the grid held before is lost.\<close>

lemma createSmileyLandmasses_overwrites:
  assumes "\<And>p. p \<notin> set (scanOrder w h) \<Longrightarrow> g1 p = g2 p"
  shows "createSmileyLandmasses eng w h c1 c2 rows cols ss (g1, s) =
         createSmileyLandmasses eng w h c1 c2 rows cols ss (g2, s)"
proof -
  have "fst (createSmileyLandmasses eng w h c1 c2 rows cols ss (g1, s)) =
        fst (createSmileyLandmasses eng w h c1 c2 rows cols ss (g2, s))"
    using assms by (auto simp: createSmileyLandmasses_grid foldl_smileyPlot fun_eq_iff)
  moreover have "snd (createSmileyLandmasses eng w h c1 c2 rows cols ss (g1, s)) =
        snd (createSmileyLandmasses eng w h c1 c2 rows cols ss (g2, s))"
    by (simp add: createSmileyLandmasses_def Let_def split: prod.splits)
  ultimately show ?thesis by (rule prod_eqI)
qed

lemma smileyClassify_terrain:
  assumes "0 \<le> x" "x < getGridWidth eng" "0 \<le> y" "y < getGridHeight eng"
  shows "\<exists>ph wh. getTerrainType (fst (snd (smileyClassify eng info st))) x y =
           smileyTerrain (getGridWidth eng) (getGridHeight eng) (smileyWest eng) (smileyEast eng)
             ph wh (g_Cutoff eng) x y"
  using assms
  by (auto simp: smileyClassify_def Let_def createSmileyLandmasses_terrain split: prod.splits)

text \<open>It keeps the polar rows ocean and its tags in step with the terrain.\<close>

lemma smileyClassify_polar:
  assumes "0 \<le> x" "x < getGridWidth eng" "0 \<le> y" "y < getGridHeight eng"
    and "real_of_int y < south (smileyWest eng) \<or> north (smileyWest eng) \<le> real_of_int y"
  shows "getTerrainType (fst (snd (smileyClassify eng info st))) x y = Ocean"
  using smileyClassify_terrain[OF assms(1-4), of info st] assms(5)
  by (auto simp: smileyTerrain_def)

lemma smileyClassify_tags:
  assumes "0 \<le> x" "x < getGridWidth eng" "0 \<le> y" "y < getGridHeight eng"
  shows "tags (fst (snd (smileyClassify eng info st)) (x, y)) =
           {if isWater (terrain (fst (snd (smileyClassify eng info st)) (x, y)))
            then WaterMember (tagSide x (west (smileyEast eng)))
            else LandmassMember (tagSide x (west (smileyEast eng)))}"
  using assms
  by (simp add: smileyClassify_def Let_def createSmileyLandmasses_grid foldl_smileyPlot
        set_scanOrder split: prod.splits)

lemma foldl_initPlot_overwrites:
  assumes "\<And>p. p \<notin> set (scanOrder w h) \<Longrightarrow> g1 p = g2 p"
  shows "foldl initPlot g1 (scanOrder w h) = foldl initPlot g2 (scanOrder w h)"
  using assms by (auto simp: foldl_initPlot fun_eq_iff)

section \<open>Water and land under the coast pass\<close>

lemma expandCoasts_keeps_water:
  "isWater (terrain (g p)) \<Longrightarrow> isWater (terrain (fst (expandCoasts adj rnd w h (g, s)) p))"
  using expandCoastsOver_grid[of adj rnd g s "scanOrder w h" p]
  by (auto simp: expandCoasts_def isWater_def)

lemma expandCoasts_keeps_land:
  "terrain (g p) \<noteq> Ocean \<Longrightarrow> fst (expandCoasts adj rnd w h (g, s)) p = g p"
  using expandCoastsOver_grid[of adj rnd g s "scanOrder w h" p]
  by (auto simp: expandCoasts_def)

lemma expandCoasts_promotes:
  assumes "p \<in> set cs" "distinct cs" "terrain (g p) = Ocean"
    and "n \<in> set (neighbours (fst p) (snd p))" "terrain (g n) = Coast"
    and "\<And>k t. fst (rnd k t) = 0"
  shows "terrain (fst (expandCoastsOver adjacentToCoast rnd (g, s) cs) p) = Coast"
proof -
  from assms(1) obtain pre post where cs: "cs = pre @ p # post"
    by (auto dest: split_list)
  with assms(2) have notin: "p \<notin> set pre" "p \<notin> set post" by auto
  obtain gk sk where k: "expandCoastsOver adjacentToCoast rnd (g, s) pre = (gk, sk)"
    by (cases "expandCoastsOver adjacentToCoast rnd (g, s) pre")
  have gp: "gk p = g p"
    using expandCoastsOver_grid[of adjacentToCoast rnd g s pre p] k notin by auto
  have gn: "gk n = g n"
    using expandCoastsOver_grid[of adjacentToCoast rnd g s pre n] k assms(5) by auto
  have adj: "adjacentToCoast gk (fst p) (snd p)"
    using assms(4,5) gn by (auto simp: adjacentToCoast_def list_ex_iff intro!: bexI[of _ n])
  obtain g1 s1 where st: "expandCoastsStep adjacentToCoast rnd (gk, sk) p = (g1, s1)"
    by (cases "expandCoastsStep adjacentToCoast rnd (gk, sk) p")
  have "terrain (g1 p) = Coast"
    using st adj gp assms(3) assms(6)[of 2 sk]
    by (cases p) (auto simp: getTerrainType_def setTerrainType_def split: prod.splits if_splits)
  moreover have "fst (expandCoastsOver adjacentToCoast rnd (g1, s1) post) p = g1 p"
    using expandCoastsOver_grid[of adjacentToCoast rnd g1 s1 post p] notin by auto
  moreover have "expandCoastsOver adjacentToCoast rnd (g, s) cs =
                 expandCoastsOver adjacentToCoast rnd (g1, s1) post"
    using expandCoastsOver_append[of adjacentToCoast rnd "(g, s)" "pre @ [p]" post]
    by (simp add: cs expandCoastsOver_append expandCoastsOver_single k st)
  ultimately show ?thesis by simp
qed

text \<open>
  The visit of an eligible plot: one draw of range 2 is made, the plot becomes Coast if
  and only if the draw is 0, and later visits leave it alone.
\<close>

lemma expandCoasts_visit:
  assumes "scanOrder iWidth iHeight = pre @ (x, y) # post"
    and "expandCoastsOver adj rnd st pre = (gk, sk)"
    and "getTerrainType gk x y = Ocean" and "adj gk x y"
  shows "expandCoastsOver adj rnd st (pre @ [(x, y)]) =
           (if fst (rnd 2 sk) = 0 then setTerrainType gk x y Coast else gk, snd (rnd 2 sk)) \<and>
         getTerrainType (fst (expandCoasts adj rnd iWidth iHeight st)) x y =
           (if fst (rnd 2 sk) = 0 then Coast else Ocean)"
proof -
  let ?st1 = "(if fst (rnd 2 sk) = 0 then setTerrainType gk x y Coast else gk, snd (rnd 2 sk))"
  have step: "expandCoastsOver adj rnd st (pre @ [(x, y)]) = ?st1"
    using assms(2-4)
    by (simp add: expandCoastsOver_append expandCoastsOver_single split: prod.splits)
  have "distinct (pre @ (x, y) # post)"
    using distinct_scanOrder[of iWidth iHeight] assms(1) by simp
  then have notin: "(x, y) \<notin> set post" by simp
  have "expandCoasts adj rnd iWidth iHeight st = expandCoastsOver adj rnd ?st1 post"
    using step assms(1) expandCoastsOver_append[of adj rnd st "pre @ [(x, y)]" post]
    by (simp add: expandCoasts_def)
  moreover have "fst (expandCoastsOver adj rnd ?st1 post) (x, y) = fst ?st1 (x, y)"
    using expandCoastsOver_grid[of adj rnd "fst ?st1" "snd ?st1" post "(x, y)"] notin
    by auto
  ultimately have "getTerrainType (fst (expandCoasts adj rnd iWidth iHeight st)) x y =
                   getTerrainType (fst ?st1) x y"
    by (simp add: getTerrainType_def)
  with assms(3) step show ?thesis
    by (simp add: getTerrainType_def setTerrainType_def)
qed

lemma expandCoastsOver_promotes:
  assumes "p \<in> set cs" "distinct cs" "terrain (g p) = Ocean"
    and "\<And>g'. (\<And>q. terrain (g q) \<noteq> Ocean \<Longrightarrow> g' q = g q) \<Longrightarrow> adj g' (fst p) (snd p)"
    and "\<And>k t. fst (rnd k t) = 0"
  shows "terrain (fst (expandCoastsOver adj rnd (g, s) cs) p) = Coast"
proof -
  from assms(1) obtain pre post where cs: "cs = pre @ p # post"
    by (auto dest: split_list)
  with assms(2) have notin: "p \<notin> set pre" "p \<notin> set post" by auto
  obtain gk sk where k: "expandCoastsOver adj rnd (g, s) pre = (gk, sk)"
    by (cases "expandCoastsOver adj rnd (g, s) pre")
  have gp: "gk p = g p"
    using expandCoastsOver_grid[of adj rnd g s pre p] k notin by auto
  have "gk q = g q" if "terrain (g q) \<noteq> Ocean" for q
    using expandCoastsOver_grid[of adj rnd g s pre q] k that by auto
  then have adj: "adj gk (fst p) (snd p)" by (rule assms(4))
  obtain g1 s1 where st: "expandCoastsStep adj rnd (gk, sk) p = (g1, s1)"
    by (cases "expandCoastsStep adj rnd (gk, sk) p")
  have "terrain (g1 p) = Coast"
    using st adj gp assms(3) assms(5)[of 2 sk]
    by (cases p) (auto simp: getTerrainType_def setTerrainType_def split: prod.splits if_splits)
  moreover have "fst (expandCoastsOver adj rnd (g1, s1) post) p = g1 p"
    using expandCoastsOver_grid[of adj rnd g1 s1 post p] notin by auto
  moreover have "expandCoastsOver adj rnd (g, s) cs = expandCoastsOver adj rnd (g1, s1) post"
    using expandCoastsOver_append[of adj rnd "(g, s)" "pre @ [p]" post]
    by (simp add: cs expandCoastsOver_append expandCoastsOver_single k st)
  ultimately show ?thesis by simp
qed

lemma expandCoasts_promotes_land:
  assumes "p \<in> set cs" "distinct cs" "terrain (g p) = Ocean"
    and "n \<in> set (neighbours (fst p) (snd p))" "\<not> isWater (terrain (g n))"
    and "\<And>k t. fst (rnd k t) = 0"
  shows "terrain (fst (expandCoastsOver adjacentToLand rnd (g, s) cs) p) = Coast"
proof (rule expandCoastsOver_promotes)
  fix g' assume same: "\<And>q. terrain (g q) \<noteq> Ocean \<Longrightarrow> g' q = g q"
  from assms(5) have "g' n = g n" by (intro same) (auto simp: isWater_def)
  with assms(4,5) show "adjacentToLand g' (fst p) (snd p)"
    by (auto simp: adjacentToLand_def list_ex_iff intro!: bexI[of _ n])
qed (use assms in auto)

lemma shoreFix_keeps_water:
  "isWater (terrain (fst st p)) \<Longrightarrow> isWater (terrain (fst (shoreFix st) p))"
  by (simp add: shoreFix_def isWater_def)

lemma smileyTerrainStages_grid:
  "snd (smileyTerrainStages eng info st) =
     expandCoasts (isAdjacentToShallowWater eng) (getRandomNumber eng) (getGridWidth eng) (getGridHeight eng)
       (validateAndFixTerrain eng (snd (smileyClassify eng info st)))"
  by (simp add: smileyTerrainStages_def split: prod.splits)

lemma expandCoasts_water_stage:
  "isWater (getTerrainType (fst st) x y) \<Longrightarrow>
     isWater (getTerrainType (fst (expandCoasts adj rnd w h st)) x y)"
  using expandCoasts_keeps_water[of "fst st" "(x, y)" adj rnd w h "snd st"]
  by (simp add: getTerrainType_def)

section \<open>The standard engine stage by stage\<close>

lemma sqrt_less_iff: "0 \<le> b \<Longrightarrow> sqrt a < b \<longleftrightarrow> a < b\<^sup>2"
  using real_sqrt_less_iff[of a "b\<^sup>2"] by simp

lemma standard_classified:
  assumes "0 \<le> x" "x < 84" "0 \<le> y" "y < 54"
  shows "terrain (fst (snd (smileyClassify standardEngine standardInfo st)) (x, y)) =
           smileyTerrain 84 54 \<lparr>west = 4, east = 30, south = 2, north = 52, continent = 0\<rparr>
             \<lparr>west = 54, east = 80, south = 2, north = 52, continent = 1\<rparr> (\<lambda>x y. 100) 10 2 x y"
proof -
  have "getTerrainType (fst (createSmileyLandmasses standardEngine 84 54 (smileyWest standardEngine)
           (smileyEast standardEngine) rows cols ss st')) x y =
        smileyTerrain 84 54 \<lparr>west = 4, east = 30, south = 2, north = 52, continent = 0\<rparr>
             \<lparr>west = 54, east = 80, south = 2, north = 52, continent = 1\<rparr> (\<lambda>x y. 100) 10 2 x y"
    for rows cols ss st'
    using assms
    by (simp add: createSmileyLandmasses_terrain smileyPlotHeight_def[abs_def] smileyWaterHeight_def
          smileyWest_def smileyEast_def standardEngine_def)
  then show ?thesis
    by (simp add: smileyClassify_def Let_def getTerrainType_def standardEngine_def split: prod.splits)
qed

lemmas standard_eval =
  smileyTerrain_def isInFeature_def Let_def sqrt_less_iff

lemma standard_gap_classified:
  "terrain (fst (snd (smileyClassify standardEngine standardInfo st)) (54, 27)) = Flat"
  "terrain (fst (snd (smileyClassify standardEngine standardInfo st)) (29, 27)) = Flat"
  "terrain (fst (snd (smileyClassify standardEngine standardInfo st)) (30, 27)) = Ocean"
  "terrain (fst (snd (smileyClassify standardEngine standardInfo st)) (31, 27)) = Ocean"
  "terrain (fst (snd (smileyClassify standardEngine standardInfo st)) (32, 27)) = Ocean"
  "terrain (fst (snd (smileyClassify standardEngine standardInfo st)) (31, 26)) = Ocean"
  "terrain (fst (snd (smileyClassify standardEngine standardInfo st)) (31, 28)) = Ocean"
  by (simp_all add: standard_classified standard_eval)

lemma standard_eye_classified:
  "terrain (fst (snd (smileyClassify standardEngine standardInfo st)) (5, 35)) = Flat"
  "terrain (fst (snd (smileyClassify standardEngine standardInfo st)) (6, 35)) = Ocean"
  "terrain (fst (snd (smileyClassify standardEngine standardInfo st)) (7, 35)) = Ocean"
  "terrain (fst (snd (smileyClassify standardEngine standardInfo st)) (8, 35)) = Ocean"
  "terrain (fst (snd (smileyClassify standardEngine standardInfo st)) (7, 34)) = Ocean"
  "terrain (fst (snd (smileyClassify standardEngine standardInfo st)) (7, 36)) = Ocean"
  by (simp_all add: standard_classified standard_eval)

lemma standard_fixed:
  "terrain (fst (shoreFix (snd (smileyClassify standardEngine standardInfo st))) (54, 27)) = Flat"
  "terrain (fst (shoreFix (snd (smileyClassify standardEngine standardInfo st))) (30, 27)) = Coast"
  "terrain (fst (shoreFix (snd (smileyClassify standardEngine standardInfo st))) (31, 27)) = Ocean"
  "terrain (fst (shoreFix (snd (smileyClassify standardEngine standardInfo st))) (6, 35)) = Coast"
  "terrain (fst (shoreFix (snd (smileyClassify standardEngine standardInfo st))) (7, 35)) = Ocean"
  by (simp_all add: shoreFix_def adjacentToLand_def neighbours_def isWater_def
        standard_gap_classified standard_eye_classified)

lemma standard_final:
  "snd (smileyTerrainStages standardEngine standardInfo st) =
     expandCoastsOver adjacentToCoast (\<lambda>n s. (0, n # s))
       (shoreFix (snd (smileyClassify standardEngine standardInfo st))) (scanOrder 84 54)"
  by (simp add: smileyTerrainStages_grid expandCoasts_def) (simp add: standardEngine_def)

lemma standard_validate: "validateAndFixTerrain standardEngine = shoreFix"
  by (simp add: standardEngine_def)

lemma standard_promoted:
  assumes "0 \<le> x" "x < 84" "0 \<le> y" "y < 54"
    and "terrain (fst (shoreFix (snd (smileyClassify standardEngine standardInfo st))) (x, y)) = Ocean"
    and "terrain (fst (shoreFix (snd (smileyClassify standardEngine standardInfo st))) (x - 1, y)) = Coast"
  shows "terrain (fst (snd (smileyTerrainStages standardEngine standardInfo st)) (x, y)) = Coast"
proof -
  obtain g s where fixed: "shoreFix (snd (smileyClassify standardEngine standardInfo st)) = (g, s)"
    by (cases "shoreFix (snd (smileyClassify standardEngine standardInfo st))")
  have "terrain (fst (expandCoastsOver adjacentToCoast (\<lambda>n s. (0, n # s)) (g, s) (scanOrder 84 54)) (x, y)) = Coast"
    by (rule expandCoasts_promotes[where n = "(x - 1, y)"])
       (use assms fixed in \<open>simp_all add: set_scanOrder distinct_scanOrder neighbours_def\<close>)
  then show ?thesis by (simp add: standard_final fixed)
qed

lemma standard_regions:
  "earthlikeWest standardEngine = \<lparr>west = 4, east = 37, south = 2, north = 52, continent = 0\<rparr>"
  "earthlikeEast standardEngine = \<lparr>west = 46, east = 80, south = 2, north = 52, continent = 1\<rparr>"
  by (simp_all add: earthlikeWest_def earthlikeEast_def gapStart_def gapEnd_def standardEngine_def)

lemma standard_earthlike:
  "fst (earthlikeClassify standardEngine st) (20, 52) = \<lparr>terrain = Flat, tags = {LandmassMember WestSide}\<rparr>"
  "fst (earthlikeClassify standardEngine st) (10, 30) =
     \<lparr>terrain = Ocean, tags = {WaterMember WestSide, LandmassMember WestSide}\<rparr>"
  by (simp_all add: earthlikeClassify_def createContinent_def primaryPass_def secondaryPass_def
        Let_def standard_regions foldl_initPlot foldl_primaryStep foldl_secondaryStep
        set_scanOrder set_regionCells tagSide_def)
     (simp_all add: standardEngine_def tagSide_def)

text \<open>The land reading of the adjacency query on the same classification.\<close>

lemma landReading_classified:
  "smileyClassify landReadingEngine info st = smileyClassify standardEngine info st"
  by (simp add: landReadingEngine_def smileyClassify_def createSmileyLandmasses_def
        smileyWest_def smileyEast_def)

lemma landReading_final:
  "snd (smileyTerrainStages landReadingEngine standardInfo st) =
     expandCoastsOver adjacentToLand (\<lambda>n s. (0, n # s))
       (snd (smileyClassify standardEngine standardInfo st)) (scanOrder 84 54)"
  by (simp add: smileyTerrainStages_grid expandCoasts_def landReading_classified)
     (simp add: landReadingEngine_def standardEngine_def)

lemma landReading_promoted:
  assumes "0 \<le> x" "x < 84" "0 \<le> y" "y < 54"
    and "terrain (fst (snd (smileyClassify standardEngine standardInfo st)) (x, y)) = Ocean"
    and "terrain (fst (snd (smileyClassify standardEngine standardInfo st)) (x - 1, y)) = Flat"
  shows "terrain (fst (snd (smileyTerrainStages landReadingEngine standardInfo st)) (x, y)) = Coast"
proof -
  obtain g s where c: "snd (smileyClassify standardEngine standardInfo st) = (g, s)"
    by (cases "snd (smileyClassify standardEngine standardInfo st)")
  have "terrain (fst (expandCoastsOver adjacentToLand (\<lambda>n s. (0, n # s)) (g, s) (scanOrder 84 54)) (x, y)) = Coast"
    by (rule expandCoasts_promotes_land[where n = "(x - 1, y)"])
       (use assms c in \<open>simp_all add: set_scanOrder distinct_scanOrder neighbours_def isWater_def\<close>)
  then show ?thesis by (simp add: landReading_final c)
qed

lemma landReading_examples:
  "getTerrainType (fst (snd (smileyTerrainStages landReadingEngine standardInfo st))) 30 27 = Coast"
  "getTerrainType (fst (snd (smileyTerrainStages landReadingEngine standardInfo st))) 6 35 = Coast"
  unfolding getTerrainType_def
  by (rule landReading_promoted; simp add: standard_gap_classified standard_eye_classified)+

section \<open>Claims\<close>

text \<open>
  C1 (ocean gap). The classifier tests the gap with
  \<^verbatim>\<open>iX >= continent1.east && iX < continent2.west\<close>, so the column
  \<open>eastContinent.west\<close> belongs to the east continent, and the coast pass may turn gap
  plots into Coast. What holds: for every plot of the grid with
  \<open>westContinent.east \<le> x < eastContinent.west\<close> the classifier writes Ocean, whatever the
  height field; and if the engine's validation leaves the plot water, it is water, Ocean or
  Coast, after the coast pass.
\<close>

theorem ocean_gap:
  assumes "0 \<le> x" "x < getGridWidth eng" "0 \<le> y" "y < getGridHeight eng"
    and "east (smileyWest eng) \<le> real_of_int x" and "real_of_int x < west (smileyEast eng)"
  shows "getTerrainType (fst (snd (smileyClassify eng info st))) x y = Ocean \<and>
         (isWater (getTerrainType (fst (validateAndFixTerrain eng (snd (smileyClassify eng info st)))) x y) \<longrightarrow>
          isWater (getTerrainType (fst (snd (smileyTerrainStages eng info st))) x y))"
proof
  from smileyClassify_terrain[OF assms(1-4), of info st] assms(5,6)
  show "getTerrainType (fst (snd (smileyClassify eng info st))) x y = Ocean"
    by (auto simp: smileyTerrain_def)
  show "isWater (getTerrainType (fst (validateAndFixTerrain eng (snd (smileyClassify eng info st)))) x y) \<longrightarrow>
          isWater (getTerrainType (fst (snd (smileyTerrainStages eng info st))) x y)"
    by (simp add: smileyTerrainStages_grid expandCoasts_water_stage)
qed

theorem ocean_gap_witness:
  "east (smileyWest standardEngine) \<le> real_of_int 31 \<and> real_of_int 31 < west (smileyEast standardEngine) \<and>
   getTerrainType (fst (snd (smileyClassify standardEngine standardInfo (mountainGrid 84 54, [])))) 31 27 = Ocean \<and>
   isWater (getTerrainType (fst (snd (smileyTerrainStages standardEngine standardInfo (mountainGrid 84 54, [])))) 31 27)"
proof -
  have h: "(0::int) \<le> 31" "31 < getGridWidth standardEngine" "(0::int) \<le> 27" "27 < getGridHeight standardEngine"
    "east (smileyWest standardEngine) \<le> real_of_int 31" "real_of_int 31 < west (smileyEast standardEngine)"
    by (simp_all add: smileyWest_def smileyEast_def standardEngine_def)
  have w: "isWater (getTerrainType (fst (validateAndFixTerrain standardEngine
             (snd (smileyClassify standardEngine standardInfo (mountainGrid 84 54, []))))) 31 27)"
    by (simp add: standard_validate getTerrainType_def standard_fixed isWater_def)
  from ocean_gap[OF h, of standardInfo "(mountainGrid 84 54, [])"] w h(5,6) show ?thesis by simp
qed

text \<open>
  On the standard engine the regions are columns 4 to 30 and 54 to 80. The plot
  \<open>(54, 27)\<close>, at \<open>x = eastContinent.west\<close>, is Flat after the whole pipeline, and the gap
  plot \<open>(31, 27)\<close>, Ocean after classification, is Coast after the coast pass. Under the
  land reading of the adjacency query the gap plot \<open>(30, 27)\<close>, at
  \<open>x = westContinent.east\<close>, ends as Coast.
\<close>

theorem ocean_gap_counterexample:
  "east (smileyWest standardEngine) \<le> 54 \<and> 54 \<le> west (smileyEast standardEngine) \<and>
   getTerrainType (fst (snd (smileyTerrainStages standardEngine standardInfo (oceanGrid, [])))) 54 27 = Flat \<and>
   east (smileyWest standardEngine) \<le> 31 \<and> 31 \<le> west (smileyEast standardEngine) \<and>
   getTerrainType (fst (snd (smileyClassify standardEngine standardInfo (oceanGrid, [])))) 31 27 = Ocean \<and>
   getTerrainType (fst (snd (smileyTerrainStages standardEngine standardInfo (oceanGrid, [])))) 31 27 = Coast \<and>
   east (smileyWest standardEngine) \<le> 30 \<and> 30 \<le> west (smileyEast standardEngine) \<and>
   getTerrainType (fst (snd (smileyTerrainStages landReadingEngine standardInfo (oceanGrid, [])))) 30 27 = Coast"
proof -
  have bounds: "east (smileyWest standardEngine) = 30" "west (smileyEast standardEngine) = 54"
    by (simp_all add: smileyWest_def smileyEast_def standardEngine_def)
  have "fst (snd (smileyTerrainStages standardEngine standardInfo (oceanGrid, []))) (54, 27) =
        fst (shoreFix (snd (smileyClassify standardEngine standardInfo (oceanGrid, [])))) (54, 27)"
    unfolding standard_final expandCoasts_def[symmetric]
    by (cases "shoreFix (snd (smileyClassify standardEngine standardInfo (oceanGrid, [])))")
       (use standard_fixed(1)[of "(oceanGrid, [])"] in \<open>simp add: expandCoasts_keeps_land\<close>)
  then have a: "getTerrainType (fst (snd (smileyTerrainStages standardEngine standardInfo (oceanGrid, [])))) 54 27 = Flat"
    by (simp add: getTerrainType_def standard_fixed)
  have b: "getTerrainType (fst (snd (smileyTerrainStages standardEngine standardInfo (oceanGrid, [])))) 31 27 = Coast"
    unfolding getTerrainType_def by (rule standard_promoted) (simp_all add: standard_fixed)
  from a b bounds show ?thesis
    by (simp add: getTerrainType_def standard_gap_classified landReading_examples[unfolded getTerrainType_def])
qed

text \<open>
  C2 (determinism). The scripts draw every random number from the engine's seeded stream
  and keep no state of their own besides the grid. For a fixed engine, that is fixed
  dimensions, globals, map-size entry and services, and a fixed state \<open>s\<close> of the stream,
  two runs that start from grids with arbitrarily different plots inside the map end in
  the same world: same terrain, same tags, same stream.
\<close>

theorem generateMap_deterministic:
  assumes "mapsLookup eng = Some info"
    and "\<forall>x y. \<not> (0 \<le> x \<and> x < getGridWidth eng \<and> 0 \<le> y \<and> y < getGridHeight eng) \<longrightarrow> g1 (x, y) = g2 (x, y)"
  shows "smileyGenerateMap eng (g1, s) = smileyGenerateMap eng (g2, s) \<and>
         earthlikeGenerateMap eng (g1, s) = earthlikeGenerateMap eng (g2, s)"
proof
  have outside: "\<And>p. p \<notin> set (scanOrder (getGridWidth eng) (getGridHeight eng)) \<Longrightarrow> g1 p = g2 p"
    using assms(2) by (auto simp: set_scanOrder)
  have same: "createSmileyLandmasses eng (getGridWidth eng) (getGridHeight eng) c1 c2 rows cols ss (g1, t) =
              createSmileyLandmasses eng (getGridWidth eng) (getGridHeight eng) c1 c2 rows cols ss (g2, t)"
    for c1 c2 rows cols ss t
    by (rule createSmileyLandmasses_overwrites) (rule outside)
  have "smileyClassify eng info (g1, s) = smileyClassify eng info (g2, s)"
    by (simp add: smileyClassify_def Let_def same split: prod.splits)
  then have "smileyTerrainStages eng info (g1, s) = smileyTerrainStages eng info (g2, s)"
    by (simp add: smileyTerrainStages_def)
  then show "smileyGenerateMap eng (g1, s) = smileyGenerateMap eng (g2, s)"
    by (simp add: smileyGenerateMap_def assms(1))
  have "earthlikeClassify eng (g1, s) = earthlikeClassify eng (g2, s)"
    using foldl_initPlot_overwrites[OF outside] by (simp add: earthlikeClassify_def Let_def)
  then show "earthlikeGenerateMap eng (g1, s) = earthlikeGenerateMap eng (g2, s)"
    by (simp add: earthlikeGenerateMap_def assms(1))
qed

theorem generateMap_deterministic_witness:
  "oceanGrid (3, 3) \<noteq> mountainGrid 84 54 (3, 3) \<and>
   fst (smileyGenerateMap standardEngine (oceanGrid, [])) = Generated \<and>
   smileyGenerateMap standardEngine (oceanGrid, []) = smileyGenerateMap standardEngine (mountainGrid 84 54, []) \<and>
   earthlikeGenerateMap standardEngine (oceanGrid, []) = earthlikeGenerateMap standardEngine (mountainGrid 84 54, [])"
proof -
  have h1: "mapsLookup standardEngine = Some standardInfo" by (simp add: standardEngine_def)
  have h2: "\<forall>x y. \<not> (0 \<le> x \<and> x < getGridWidth standardEngine \<and> 0 \<le> y \<and> y < getGridHeight standardEngine)
              \<longrightarrow> oceanGrid (x, y) = mountainGrid 84 54 (x, y)"
    by (simp add: standardEngine_def oceanGrid_def mountainGrid_def)
  have d: "oceanGrid (3, 3) \<noteq> mountainGrid 84 54 (3, 3)"
    by (simp add: oceanGrid_def mountainGrid_def)
  have g: "fst (smileyGenerateMap standardEngine (oceanGrid, [])) = Generated"
    by (simp add: smileyGenerateMap_def h1 split: prod.splits)
  from generateMap_deterministic[OF h1 h2, of "[]"] d g show ?thesis by simp
qed

text \<open>
  C3 (monotonic refinement). In \<^verbatim>\<open>createContinent\<close>, for every engine, region and
  starting world, the plots that hold Flat land after the secondary pass are among the
  plots that held Flat land after the primary pass: the secondary pass never creates land.
\<close>

theorem secondary_pass_monotone:
  "{p. terrain (fst (createContinent eng iWidth iHeight eastWest c st) p) = Flat}
     \<subseteq> {p. terrain (fst (primaryPass eng iWidth iHeight eastWest c st) p) = Flat}"
  by (auto simp: createContinent_def secondaryPass_def foldl_secondaryStep
           split: prod.splits if_splits)

theorem secondary_pass_monotone_witness:
  "(20, 30) \<in> {p. terrain (fst (createContinent standardEngine 84 54 46 (earthlikeWest standardEngine)
                                  (oceanGrid, [])) p) = Flat} \<and>
   (20, 30) \<in> {p. terrain (fst (primaryPass standardEngine 84 54 46 (earthlikeWest standardEngine)
                                  (oceanGrid, [])) p) = Flat}"
proof -
  have "terrain (fst (createContinent standardEngine 84 54 46 (earthlikeWest standardEngine)
                        (oceanGrid, [])) (20, 30)) = Flat"
    by (simp add: createContinent_def secondaryPass_def primaryPass_def foldl_secondaryStep
          foldl_primaryStep set_regionCells standardEngine_def earthlikeWest_def gapStart_def
          oceanGrid_def)
  then show ?thesis
    using secondary_pass_monotone[of standardEngine 84 54 46 "earthlikeWest standardEngine" "(oceanGrid, [])"]
    by blast
qed

text \<open>
  C4 (coast-expansion sampling). The claim has the coast expander draw from \<open>[0, 3)\<close>, and
  the comment above the call speaks of a draw \<^verbatim>\<open>from range of 0-2\<close>; the call itself is
  \<^verbatim>\<open>TerrainBuilder.getRandomNumber(2, "Coast Expansion") == 0\<close>. The pass over the row
  Coast, Ocean, with a stream that records the range of every request, makes one request
  for the eligible second plot, and its range is 2: the plot becomes Coast when the
  stream answers 0 and stays Ocean when it answers 1.
\<close>

theorem coast_sampling_range:
  "expandCoasts adjacentToCoast (\<lambda>n s. (0, n # s)) 2 1 (rowGrid [Coast, Ocean], [])
     = (setTerrainType (rowGrid [Coast, Ocean]) 1 0 Coast, [2]) \<and>
   expandCoasts adjacentToCoast (\<lambda>n s. (1, n # s)) 2 1 (rowGrid [Coast, Ocean], [])
     = (rowGrid [Coast, Ocean], [2])"
proof -
  have first: "getTerrainType (rowGrid [Coast, Ocean]) 0 0 = Coast"
    and second: "getTerrainType (rowGrid [Coast, Ocean]) 1 0 = Ocean"
    by (simp_all add: getTerrainType_def rowGrid_def)
  have adj: "adjacentToCoast (rowGrid [Coast, Ocean]) 1 0"
    by (simp add: adjacentToCoast_def neighbours_def rowGrid_def)
  show ?thesis
    by (simp add: expandCoasts_def expandCoastsOver_def scanOrder_2_1 first second adj)
qed

text \<open>
  C5 (coast expansion against a snapshot scan). The pass reads the adjacency query from
  the grid it is writing, so the claim fails for a query that counts Coast as shallow
  water. What holds: the in-place scan and the snapshot scan compute the same world
  whenever turning an Ocean plot into Coast never changes an answer of the adjacency
  query, as is the case for adjacency to land.
\<close>

theorem expandCoasts_snapshot_equiv:
  assumes "\<forall>g a b x y. getTerrainType g a b = Ocean \<longrightarrow>
             adj (setTerrainType g a b Coast) x y = adj g x y"
  shows "expandCoasts adj rnd iWidth iHeight st = expandCoastsSnapshot adj rnd iWidth iHeight st"
proof -
  obtain g s where st: "st = (g, s)" by (cases st)
  have "foldl (expandCoastsStep adj rnd) (g, s) (scanOrder iWidth iHeight) =
        foldl (snapshotStep adj rnd g) (g, s) (scanOrder iWidth iHeight)"
    by (rule inplace_eq_snapshot) (use assms in \<open>simp_all add: distinct_scanOrder\<close>)
  then show ?thesis
    by (simp add: expandCoasts_def expandCoastsOver_def expandCoastsSnapshot_def st)
qed

theorem expandCoasts_snapshot_equiv_witness:
  "expandCoasts adjacentToLand (\<lambda>n s. (0, n # s)) 3 1 (rowGrid [Flat, Ocean, Ocean], [])
     = expandCoastsSnapshot adjacentToLand (\<lambda>n s. (0, n # s)) 3 1 (rowGrid [Flat, Ocean, Ocean], []) \<and>
   getTerrainType (fst (expandCoasts adjacentToLand (\<lambda>n s. (0, n # s)) 3 1
                          (rowGrid [Flat, Ocean, Ocean], []))) 1 0 = Coast \<and>
   getTerrainType (fst (expandCoasts adjacentToLand (\<lambda>n s. (0, n # s)) 3 1
                          (rowGrid [Flat, Ocean, Ocean], []))) 2 0 = Ocean"
proof -
  have stable: "\<forall>g a b x y. getTerrainType g a b = Ocean \<longrightarrow>
             adjacentToLand (setTerrainType g a b Coast) x y = adjacentToLand g x y"
    by (simp add: adjacentToLand_stable)
  have a: "getTerrainType (fst (expandCoasts adjacentToLand (\<lambda>n s. (0, n # s)) 3 1
                          (rowGrid [Flat, Ocean, Ocean], []))) 1 0 = Coast"
    by (simp add: expandCoasts_def expandCoastsOver_def scanOrder_3_1 getTerrainType_def
          setTerrainType_def adjacentToLand_def isWater_def neighbours_def rowGrid_def)
  have b: "getTerrainType (fst (expandCoasts adjacentToLand (\<lambda>n s. (0, n # s)) 3 1
                          (rowGrid [Flat, Ocean, Ocean], []))) 2 0 = Ocean"
    by (simp add: expandCoasts_def expandCoastsOver_def scanOrder_3_1 getTerrainType_def
          setTerrainType_def adjacentToLand_def isWater_def neighbours_def rowGrid_def)
  from a b expandCoasts_snapshot_equiv[OF stable] show ?thesis by simp
qed

text \<open>
  On the row Coast, Ocean, Ocean with every draw 0, the in-place pass promotes the second
  plot and then, because of it, the third; the snapshot scan leaves the third plot Ocean.
\<close>

theorem expandCoasts_snapshot_counterexample:
  "getTerrainType (fst (expandCoasts adjacentToCoast (\<lambda>n s. (0, n # s)) 3 1
                          (rowGrid [Coast, Ocean, Ocean], []))) 2 0 = Coast \<and>
   getTerrainType (fst (expandCoastsSnapshot adjacentToCoast (\<lambda>n s. (0, n # s)) 3 1
                          (rowGrid [Coast, Ocean, Ocean], []))) 2 0 = Ocean \<and>
   expandCoasts adjacentToCoast (\<lambda>n s. (0, n # s)) 3 1 (rowGrid [Coast, Ocean, Ocean], [])
     \<noteq> expandCoastsSnapshot adjacentToCoast (\<lambda>n s. (0, n # s)) 3 1 (rowGrid [Coast, Ocean, Ocean], [])"
proof -
  have a: "getTerrainType (fst (expandCoasts adjacentToCoast (\<lambda>n s. (0, n # s)) 3 1
                          (rowGrid [Coast, Ocean, Ocean], []))) 2 0 = Coast"
    by (simp add: expandCoasts_def expandCoastsOver_def scanOrder_3_1 getTerrainType_def
          setTerrainType_def adjacentToCoast_def neighbours_def rowGrid_def)
  have b: "getTerrainType (fst (expandCoastsSnapshot adjacentToCoast (\<lambda>n s. (0, n # s)) 3 1
                          (rowGrid [Coast, Ocean, Ocean], []))) 2 0 = Ocean"
    by (simp add: expandCoastsSnapshot_def scanOrder_3_1 getTerrainType_def
          setTerrainType_def adjacentToCoast_def neighbours_def rowGrid_def)
  from a b show ?thesis by auto
qed

text \<open>
  C6 (shape-mask override). The mask overrides the height test in the classifier; the
  coast pass does not look at the mask. What holds: for every plot of the grid inside an
  eye disc or the mouth band the classifier writes Ocean, whatever the height field; and
  if the engine's validation leaves the plot water, it is water, Ocean or Coast, after
  the coast pass.
\<close>

theorem shape_mask_override:
  assumes "0 \<le> x" "x < getGridWidth eng" "0 \<le> y" "y < getGridHeight eng"
    and "isInFeature (getGridWidth eng) (getGridHeight eng) (smileyWest eng) (smileyEast eng) x y"
  shows "getTerrainType (fst (snd (smileyClassify eng info st))) x y = Ocean \<and>
         (isWater (getTerrainType (fst (validateAndFixTerrain eng (snd (smileyClassify eng info st)))) x y) \<longrightarrow>
          isWater (getTerrainType (fst (snd (smileyTerrainStages eng info st))) x y))"
proof
  from smileyClassify_terrain[OF assms(1-4), of info st] assms(5)
  show "getTerrainType (fst (snd (smileyClassify eng info st))) x y = Ocean"
    by (auto simp: smileyTerrain_def)
  show "isWater (getTerrainType (fst (validateAndFixTerrain eng (snd (smileyClassify eng info st)))) x y) \<longrightarrow>
          isWater (getTerrainType (fst (snd (smileyTerrainStages eng info st))) x y)"
    by (simp add: smileyTerrainStages_grid expandCoasts_water_stage)
qed

theorem shape_mask_override_witness:
  "isInFeature (getGridWidth standardEngine) (getGridHeight standardEngine)
     (smileyWest standardEngine) (smileyEast standardEngine) 7 35 \<and>
   getTerrainType (fst (snd (smileyClassify standardEngine standardInfo (mountainGrid 84 54, [])))) 7 35 = Ocean \<and>
   isWater (getTerrainType (fst (snd (smileyTerrainStages standardEngine standardInfo (mountainGrid 84 54, [])))) 7 35)"
proof -
  have h: "(0::int) \<le> 7" "7 < getGridWidth standardEngine" "(0::int) \<le> 35" "35 < getGridHeight standardEngine"
    by (simp_all add: standardEngine_def)
  have m: "isInFeature (getGridWidth standardEngine) (getGridHeight standardEngine)
     (smileyWest standardEngine) (smileyEast standardEngine) 7 35"
    by (simp add: isInFeature_def Let_def smileyWest_def smileyEast_def standardEngine_def sqrt_less_iff)
  have w: "isWater (getTerrainType (fst (validateAndFixTerrain standardEngine
             (snd (smileyClassify standardEngine standardInfo (mountainGrid 84 54, []))))) 7 35)"
    by (simp add: standard_validate getTerrainType_def standard_fixed isWater_def)
  from shape_mask_override[OF h m, of standardInfo "(mountainGrid 84 54, [])"] w m show ?thesis by simp
qed

text \<open>
  On the standard engine, whose heights are all above the land threshold, the plot
  \<open>(7, 35)\<close> lies in the left eye of the west continent, two plots from its rim. It is
  Ocean after classification and Coast after the coast pass. Under the land reading of the
  adjacency query the rim plot \<open>(6, 35)\<close> of the eye ends as Coast.
\<close>

theorem shape_mask_override_counterexample:
  "isInFeature (getGridWidth standardEngine) (getGridHeight standardEngine)
     (smileyWest standardEngine) (smileyEast standardEngine) 7 35 \<and>
   getTerrainType (fst (snd (smileyClassify standardEngine standardInfo (oceanGrid, [])))) 7 35 = Ocean \<and>
   getTerrainType (fst (snd (smileyTerrainStages standardEngine standardInfo (oceanGrid, [])))) 7 35 = Coast \<and>
   isInFeature (getGridWidth standardEngine) (getGridHeight standardEngine)
     (smileyWest standardEngine) (smileyEast standardEngine) 6 35 \<and>
   getTerrainType (fst (snd (smileyTerrainStages landReadingEngine standardInfo (oceanGrid, [])))) 6 35 = Coast"
proof -
  have m: "isInFeature (getGridWidth standardEngine) (getGridHeight standardEngine)
     (smileyWest standardEngine) (smileyEast standardEngine) 7 35"
     "isInFeature (getGridWidth standardEngine) (getGridHeight standardEngine)
     (smileyWest standardEngine) (smileyEast standardEngine) 6 35"
    by (simp_all add: isInFeature_def Let_def smileyWest_def smileyEast_def standardEngine_def sqrt_less_iff)
  have b: "getTerrainType (fst (snd (smileyTerrainStages standardEngine standardInfo (oceanGrid, [])))) 7 35 = Coast"
    unfolding getTerrainType_def by (rule standard_promoted) (simp_all add: standard_fixed)
  from m b show ?thesis
    by (simp add: getTerrainType_def standard_eye_classified landReading_examples[unfolded getTerrainType_def])
qed

text \<open>
  C7 (coast-expansion bound). The pass tests adjacency to shallow water, not to land, so
  a plot it promotes need not have a land neighbour. What holds: every plot that the pass
  made Coast was Ocean before the pass, and at its visit it was still Ocean, the adjacency
  query held for it on the grid as it then stood, and its draw was 0; every plot that was
  not Ocean before the pass, land in particular, is unchanged.
\<close>

theorem expandCoasts_bound:
  "(\<forall>p. terrain (fst (expandCoasts adj rnd iWidth iHeight (g, s)) p) = Coast \<and> terrain (g p) \<noteq> Coast \<longrightarrow>
        terrain (g p) = Ocean \<and>
        (\<exists>pre post gk sk.
            scanOrder iWidth iHeight = pre @ p # post \<and>
            expandCoastsOver adj rnd (g, s) pre = (gk, sk) \<and>
            terrain (gk p) = Ocean \<and> adj gk (fst p) (snd p) \<and> fst (rnd 2 sk) = 0)) \<and>
   (\<forall>p. terrain (g p) \<noteq> Ocean \<longrightarrow> fst (expandCoasts adj rnd iWidth iHeight (g, s)) p = g p)"
proof (intro conjI allI impI)
  fix p
  assume h: "terrain (fst (expandCoasts adj rnd iWidth iHeight (g, s)) p) = Coast \<and> terrain (g p) \<noteq> Coast"
  from expandCoastsOver_grid[of adj rnd g s "scanOrder iWidth iHeight" p] h
  show "terrain (g p) = Ocean" by (auto simp: expandCoasts_def)
  from h show "\<exists>pre post gk sk.
            scanOrder iWidth iHeight = pre @ p # post \<and>
            expandCoastsOver adj rnd (g, s) pre = (gk, sk) \<and>
            terrain (gk p) = Ocean \<and> adj gk (fst p) (snd p) \<and> fst (rnd 2 sk) = 0"
    unfolding expandCoasts_def by (intro expandCoastsOver_origin) simp_all
next
  fix p
  assume "terrain (g p) \<noteq> Ocean"
  with expandCoastsOver_grid[of adj rnd g s "scanOrder iWidth iHeight" p]
  show "fst (expandCoasts adj rnd iWidth iHeight (g, s)) p = g p"
    by (auto simp: expandCoasts_def)
qed

theorem expandCoasts_bound_witness:
  "terrain (fst (expandCoasts adjacentToCoast (\<lambda>n s. (0, n # s)) 4 1
                   (rowGrid [Flat, Coast, Ocean, Ocean], [])) (2, 0)) = Coast \<and>
   terrain (rowGrid [Flat, Coast, Ocean, Ocean] (2, 0)) = Ocean \<and>
   (\<exists>pre post gk sk.
       scanOrder 4 1 = pre @ (2, 0) # post \<and>
       expandCoastsOver adjacentToCoast (\<lambda>n s. (0, n # s)) (rowGrid [Flat, Coast, Ocean, Ocean], []) pre = (gk, sk) \<and>
       terrain (gk (2, 0)) = Ocean \<and> adjacentToCoast gk 2 0 \<and> fst ((\<lambda>n s. (0, n # s)) 2 sk) = (0::int)) \<and>
   terrain (rowGrid [Flat, Coast, Ocean, Ocean] (0, 0)) = Flat \<and>
   fst (expandCoasts adjacentToCoast (\<lambda>n s. (0, n # s)) 4 1
          (rowGrid [Flat, Coast, Ocean, Ocean], [])) (0, 0) = rowGrid [Flat, Coast, Ocean, Ocean] (0, 0)"
proof -
  let ?g = "rowGrid [Flat, Coast, Ocean, Ocean]"
  let ?rnd = "\<lambda>(n::int) (s::int list). (0::int, n # s)"
  have a: "terrain (fst (expandCoasts adjacentToCoast ?rnd 4 1 (?g, [])) (2, 0)) = Coast"
    by (simp add: expandCoasts_def expandCoastsOver_def scanOrder_4_1 getTerrainType_def
        setTerrainType_def adjacentToCoast_def neighbours_def rowGrid_def)
  have b: "terrain (?g (2, 0)) \<noteq> Coast" "terrain (?g (0, 0)) \<noteq> Ocean" "terrain (?g (0, 0)) = Flat"
    by (simp_all add: rowGrid_def)
  from expandCoasts_bound[of adjacentToCoast ?rnd 4 1 ?g "[]"] a b
  show ?thesis by (simp (no_asm_use)) blast
qed

text \<open>
  On the row Flat, Coast, Ocean, Ocean with every draw 0 the third plot becomes Coast,
  and it has no land neighbour before or after the pass.
\<close>

theorem expandCoasts_bound_counterexample:
  "getTerrainType (rowGrid [Flat, Coast, Ocean, Ocean]) 2 0 = Ocean \<and>
   getTerrainType (fst (expandCoasts adjacentToCoast (\<lambda>n s. (0, n # s)) 4 1
                          (rowGrid [Flat, Coast, Ocean, Ocean], []))) 2 0 = Coast \<and>
   \<not> adjacentToLand (rowGrid [Flat, Coast, Ocean, Ocean]) 2 0 \<and>
   \<not> adjacentToLand (fst (expandCoasts adjacentToCoast (\<lambda>n s. (0, n # s)) 4 1
                            (rowGrid [Flat, Coast, Ocean, Ocean], []))) 2 0"
  by (simp add: expandCoasts_def expandCoastsOver_def scanOrder_4_1 getTerrainType_def
        setTerrainType_def adjacentToCoast_def adjacentToLand_def isWater_def neighbours_def
        rowGrid_def)

text \<open>
  C8 (polar invariant). \<^verbatim>\<open>createContinent\<close> scans the rows
  \<^verbatim>\<open>y <= continent.north\<close> with \<open>north = iHeight - g_PolarWaterRows\<close>, so row
  \<open>north\<close> is scanned and can hold land. On the standard engine, with two polar rows and
  54 rows in all, the two-pass classifier leaves Flat land at \<open>(20, 52)\<close>, in row
  \<open>north = 52\<close> of the west region; the single-pass classifier writes Ocean there.
\<close>

theorem earthlike_polar_row_land:
  "g_PolarWaterRows standardEngine = 2 \<and> getGridHeight standardEngine = 54 \<and>
   north (earthlikeWest standardEngine) = 52 \<and>
   west (earthlikeWest standardEngine) \<le> 20 \<and> 20 \<le> east (earthlikeWest standardEngine) \<and>
   getTerrainType (fst (earthlikeClassify standardEngine (oceanGrid, []))) 20 52 = Flat \<and>
   getTerrainType (fst (snd (smileyClassify standardEngine standardInfo (oceanGrid, [])))) 20 52 = Ocean"
proof -
  have "getTerrainType (fst (snd (smileyClassify standardEngine standardInfo (oceanGrid, [])))) 20 52 = Ocean"
    by (rule smileyClassify_polar) (simp_all add: standardEngine_def smileyWest_def)
  then show ?thesis
    by (simp add: standard_regions standard_earthlike getTerrainType_def) (simp add: standardEngine_def)
qed

text \<open>
  C9 (tags and terrain). The secondary pass of \<^verbatim>\<open>createContinent\<close> reverts a plot to
  Ocean and adds the water tag without clearing the landmass tag that the primary pass
  added. On the standard engine the plot \<open>(10, 30)\<close> is Flat after the primary pass and
  ends as Ocean carrying both the landmass and the water tag.
\<close>

theorem earthlike_reverted_plot_tags:
  "getTerrainType (fst (primaryPass standardEngine 84 54 46 (earthlikeWest standardEngine) (oceanGrid, []))) 10 30 = Flat \<and>
   getTerrainType (fst (earthlikeClassify standardEngine (oceanGrid, []))) 10 30 = Ocean \<and>
   LandmassMember WestSide \<in> tags (fst (earthlikeClassify standardEngine (oceanGrid, [])) (10, 30)) \<and>
   tags (fst (earthlikeClassify standardEngine (oceanGrid, [])) (10, 30)) =
     {WaterMember WestSide, LandmassMember WestSide}"
proof -
  have "getTerrainType (fst (primaryPass standardEngine 84 54 46 (earthlikeWest standardEngine) (oceanGrid, []))) 10 30 = Flat"
    by (simp add: primaryPass_def standard_regions foldl_primaryStep set_regionCells
          getTerrainType_def oceanGrid_def)
       (simp add: standardEngine_def)
  then show ?thesis by (simp add: standard_earthlike getTerrainType_def)
qed

text \<open>
  C10 (fail-fast on missing configuration). When the map-size lookup returns nothing, both
  \<^verbatim>\<open>generateMap\<close> functions return at once: the outcome is an abort and the world, grid
  and random stream, is the one they were given, so no terrain kind and no tag was written.
\<close>

theorem generateMap_fail_fast:
  "mapsLookup eng = None \<Longrightarrow>
     smileyGenerateMap eng st = (Aborted, st) \<and> earthlikeGenerateMap eng st = (Aborted, st)"
  by (simp add: smileyGenerateMap_def earthlikeGenerateMap_def)

theorem generateMap_fail_fast_witness:
  "mapsLookup (standardEngine\<lparr>mapsLookup := None\<rparr>) = None \<and>
   smileyGenerateMap (standardEngine\<lparr>mapsLookup := None\<rparr>) (mountainGrid 84 54, [7]) = (Aborted, (mountainGrid 84 54, [7])) \<and>
   earthlikeGenerateMap (standardEngine\<lparr>mapsLookup := None\<rparr>) (mountainGrid 84 54, [7]) = (Aborted, (mountainGrid 84 54, [7]))"
  using generateMap_fail_fast[of "standardEngine\<lparr>mapsLookup := None\<rparr>" "(mountainGrid 84 54, [7])"]
  by simp

end
